theory Spec2Isabelle
  imports Main "HOL-Library.Char_ord" "HOL-Library.List_Lexorder" "HOL-Library.AList"
    "HOL-Library.Multiset"
begin

section \<open>Errors and results\<close>

text \<open>
  The exceptions raised by the code, as values. Messages are not modelled: no branch of
  the code inspects them. \<open>NotSupportedByHardwareError\<close> is
  \<^verbatim>\<open>j5.backends.hardware.env.NotSupportedByHardwareError\<close>; \<open>ValueError\<close>,
  \<open>KeyError\<close> and \<open>TypeError\<close> are Python's built-in exceptions (a failed dictionary
  lookup raises \<open>KeyError\<close>, an exhausted iterator raises \<open>StopIteration\<close>);
  \<open>CommunicationError\<close> is \<^verbatim>\<open>j5.backends.CommunicationError\<close>. The specification's
  kinds InvalidState and InvalidArgument are both \<open>ValueError\<close> in the code, and its
  kind NotFound is \<open>KeyError\<close>.
\<close>

datatype error =
    NotSupportedByHardwareError
  | ValueError
  | KeyError
  | TypeError
  | CommunicationError
  | StopIteration

section \<open>The Arduino hardware backend (j5/backends/hardware/j5/arduino.py)\<close>

subsection \<open>Data\<close>

text \<open>
  Modelled from the spec: \<^verbatim>\<open>GPIOPinMode\<close> is declared in \<^verbatim>\<open>j5.components\<close>, which is
  not among the sources. The data model of the specification lists the four members
  named by the backend.
\<close>

datatype GPIOPinMode =
    DIGITAL_INPUT
  | DIGITAL_INPUT_PULLUP
  | DIGITAL_OUTPUT
  | ANALOGUE_INPUT

text \<open>\<^verbatim>\<open>class DigitalPinData\<close>: the mode and the last written state of a digital pin.\<close>

record DigitalPinData =
  mode :: GPIOPinMode
  state :: bool

text \<open>
  The backend object. \<open>digital_pins\<close> is the dictionary \<^verbatim>\<open>self._digital_pins\<close>;
  \<open>transport\<close> stands for the serial connection owned by the base class
  \<^verbatim>\<open>SerialHardwareBackend\<close> (not among the sources), whose state is the type
  parameter \<open>'t\<close>. The lock \<^verbatim>\<open>self._lock\<close> is created but never taken by this class.
\<close>

record 't ArduinoHardwareBackend =
  serial_port :: string
  digital_pins :: "int \<rightharpoonup> DigitalPinData"
  transport :: 't

text \<open>
  The three abstract methods \<^verbatim>\<open>_update_digital_pin\<close>, \<^verbatim>\<open>_read_digital_pin\<close> and
  \<^verbatim>\<open>_read_analogue_pin\<close> are implemented by subclasses. They are parameters of the
  model: each receives the pin identifier, the pin table (which it reads) and the
  transport, and returns its result or an exception together with the new transport.
  \<open>'f\<close> is the type of an analogue reading (a Python \<^verbatim>\<open>float\<close> that the backend
  passes through unchanged).
\<close>

record ('t, 'f) hooks =
  update_digital_pin :: "int \<Rightarrow> (int \<rightharpoonup> DigitalPinData) \<Rightarrow> 't \<Rightarrow> (error + unit) \<times> 't"
  read_digital_pin :: "int \<Rightarrow> (int \<rightharpoonup> DigitalPinData) \<Rightarrow> 't \<Rightarrow> (error + bool) \<times> 't"
  read_analogue_pin :: "int \<Rightarrow> (int \<rightharpoonup> DigitalPinData) \<Rightarrow> 't \<Rightarrow> (error + 'f) \<times> 't"

text \<open>
  A method of the backend takes the object and returns the raised exception (\<open>Inl\<close>) or
  the returned value (\<open>Inr\<close>), paired with the object as the call leaves it: an
  assignment made before an exception is raised stays made.
\<close>

type_synonym ('a, 't) outcome = "(error + 'a) \<times> 't ArduinoHardwareBackend"

definition call_hook ::
  "((int \<rightharpoonup> DigitalPinData) \<Rightarrow> 't \<Rightarrow> (error + 'a) \<times> 't) \<Rightarrow> 't ArduinoHardwareBackend
     \<Rightarrow> ('a, 't) outcome" where
  "call_hook f self =
     (case f (digital_pins self) (transport self) of
        (r, t') \<Rightarrow> (r, self\<lparr>transport := t'\<rparr>))"

subsection \<open>Construction\<close>

text \<open>
  \<^verbatim>\<open>__init__\<close>: the table gets one entry for every \<open>i\<close> in
  \<^verbatim>\<open>range(2, ArduinoUno.FIRST_ANALOGUE_PIN)\<close>. The constant \<^verbatim>\<open>FIRST_ANALOGUE_PIN\<close>
  belongs to the board class \<^verbatim>\<open>ArduinoUno\<close>, which is not among the sources; it is
  the parameter \<open>fap\<close> of every definition below. \<open>serial_class\<close> is the injected
  transport constructor; the constructor of the base class, which opens the port with
  it, is not among the sources and is taken to return.
\<close>

definition init_pin :: DigitalPinData where
  "init_pin = \<lparr>mode = DIGITAL_INPUT, state = False\<rparr>"

definition ArduinoHardwareBackend_init ::
  "int \<Rightarrow> (string \<Rightarrow> 't) \<Rightarrow> string \<Rightarrow> 't ArduinoHardwareBackend" where
  "ArduinoHardwareBackend_init fap serial_class port =
     \<lparr>serial_port = port,
      digital_pins = map_of (map (\<lambda>i. (i, init_pin)) [2..fap - 1]),
      transport = serial_class port\<rparr>"

subsection \<open>GPIO operations\<close>

definition digital_pin_modes :: "GPIOPinMode set" where
  "digital_pin_modes = {DIGITAL_INPUT, DIGITAL_INPUT_PULLUP, DIGITAL_OUTPUT}"

definition set_gpio_pin_mode ::
  "('t, 'f) hooks \<Rightarrow> int \<Rightarrow> int \<Rightarrow> GPIOPinMode \<Rightarrow> 't ArduinoHardwareBackend
     \<Rightarrow> (unit, 't) outcome" where
  "set_gpio_pin_mode h fap identifier pin_mode self =
     (if identifier < fap then
        (if pin_mode \<in> digital_pin_modes then
           (case digital_pins self identifier of
              None \<Rightarrow> (Inl KeyError, self)
            | Some d \<Rightarrow>
                call_hook (update_digital_pin h identifier)
                  (self\<lparr>digital_pins := (digital_pins self)(identifier \<mapsto> d\<lparr>mode := pin_mode\<rparr>)\<rparr>))
         else (Inl NotSupportedByHardwareError, self))
      else
        (if pin_mode = ANALOGUE_INPUT then (Inr (), self)
         else (Inl NotSupportedByHardwareError, self)))"

definition get_gpio_pin_mode ::
  "int \<Rightarrow> int \<Rightarrow> 't ArduinoHardwareBackend \<Rightarrow> (GPIOPinMode, 't) outcome" where
  "get_gpio_pin_mode fap identifier self =
     (if identifier < fap then
        (case digital_pins self identifier of
           None \<Rightarrow> (Inl KeyError, self)
         | Some d \<Rightarrow> (Inr (mode d), self))
      else (Inr ANALOGUE_INPUT, self))"

definition write_gpio_pin_digital_state ::
  "('t, 'f) hooks \<Rightarrow> int \<Rightarrow> int \<Rightarrow> bool \<Rightarrow> 't ArduinoHardwareBackend
     \<Rightarrow> (unit, 't) outcome" where
  "write_gpio_pin_digital_state h fap identifier st self =
     (if identifier \<ge> fap then (Inl NotSupportedByHardwareError, self)
      else
        (case digital_pins self identifier of
           None \<Rightarrow> (Inl KeyError, self)
         | Some d \<Rightarrow>
             if mode d \<noteq> DIGITAL_OUTPUT then (Inl ValueError, self)
             else
               call_hook (update_digital_pin h identifier)
                 (self\<lparr>digital_pins := (digital_pins self)(identifier \<mapsto> d\<lparr>state := st\<rparr>)\<rparr>)))"

definition get_gpio_pin_digital_state ::
  "int \<Rightarrow> int \<Rightarrow> 't ArduinoHardwareBackend \<Rightarrow> (bool, 't) outcome" where
  "get_gpio_pin_digital_state fap identifier self =
     (if identifier \<ge> fap then (Inl NotSupportedByHardwareError, self)
      else
        (case digital_pins self identifier of
           None \<Rightarrow> (Inl KeyError, self)
         | Some d \<Rightarrow>
             if mode d \<noteq> DIGITAL_OUTPUT then (Inl ValueError, self)
             else (Inr (state d), self)))"

definition read_gpio_pin_digital_state ::
  "('t, 'f) hooks \<Rightarrow> int \<Rightarrow> int \<Rightarrow> 't ArduinoHardwareBackend \<Rightarrow> (bool, 't) outcome" where
  "read_gpio_pin_digital_state h fap identifier self =
     (if identifier \<ge> fap then (Inl NotSupportedByHardwareError, self)
      else
        (case digital_pins self identifier of
           None \<Rightarrow> (Inl KeyError, self)
         | Some d \<Rightarrow>
             if mode d \<notin> {DIGITAL_INPUT, DIGITAL_INPUT_PULLUP} then (Inl ValueError, self)
             else call_hook (read_digital_pin h identifier) self))"

definition read_gpio_pin_analogue_value ::
  "('t, 'f) hooks \<Rightarrow> int \<Rightarrow> int \<Rightarrow> 't ArduinoHardwareBackend \<Rightarrow> ('f, 't) outcome" where
  "read_gpio_pin_analogue_value h fap identifier self =
     (if identifier < fap then (Inl NotSupportedByHardwareError, self)
      else call_hook (read_analogue_pin h identifier) self)"

definition write_gpio_pin_dac_value ::
  "int \<Rightarrow> 'f \<Rightarrow> 't ArduinoHardwareBackend \<Rightarrow> (unit, 't) outcome" where
  "write_gpio_pin_dac_value identifier scaled_value self =
     (Inl NotSupportedByHardwareError, self)"

definition write_gpio_pin_pwm_value ::
  "int \<Rightarrow> 'f \<Rightarrow> 't ArduinoHardwareBackend \<Rightarrow> (unit, 't) outcome" where
  "write_gpio_pin_pwm_value identifier duty_cycle self =
     (Inl NotSupportedByHardwareError, self)"

subsection \<open>LED operations\<close>

definition get_led_state ::
  "int \<Rightarrow> int \<Rightarrow> 't ArduinoHardwareBackend \<Rightarrow> (bool, 't) outcome" where
  "get_led_state fap identifier self =
     (if identifier \<noteq> 0 then (Inl ValueError, self)
      else get_gpio_pin_digital_state fap 13 self)"

definition set_led_state ::
  "('t, 'f) hooks \<Rightarrow> int \<Rightarrow> int \<Rightarrow> bool \<Rightarrow> 't ArduinoHardwareBackend
     \<Rightarrow> (unit, 't) outcome" where
  "set_led_state h fap identifier st self =
     (if identifier \<noteq> 0 then (Inl ValueError, self)
      else write_gpio_pin_digital_state h fap 13 st self)"

subsection \<open>Sequences of operations\<close>

text \<open>
  A call of one of the interface methods, and the object after a call and after a sequence
  of calls (whatever each call returned or raised).
\<close>

datatype 'f gpio_op =
    SetMode int GPIOPinMode
  | GetMode int
  | WriteDigital int bool
  | GetDigital int
  | ReadDigital int
  | ReadAnalogue int
  | WriteDac int 'f
  | WritePwm int 'f
  | GetLed int
  | SetLed int bool

fun perform ::
  "('t, 'f) hooks \<Rightarrow> int \<Rightarrow> 'f gpio_op \<Rightarrow> 't ArduinoHardwareBackend
     \<Rightarrow> 't ArduinoHardwareBackend" where
  "perform h fap (SetMode i m) self = snd (set_gpio_pin_mode h fap i m self)"
| "perform h fap (GetMode i) self = snd (get_gpio_pin_mode fap i self)"
| "perform h fap (WriteDigital i s) self = snd (write_gpio_pin_digital_state h fap i s self)"
| "perform h fap (GetDigital i) self = snd (get_gpio_pin_digital_state fap i self)"
| "perform h fap (ReadDigital i) self = snd (read_gpio_pin_digital_state h fap i self)"
| "perform h fap (ReadAnalogue i) self = snd (read_gpio_pin_analogue_value h fap i self)"
| "perform h fap (WriteDac i v) self = snd (write_gpio_pin_dac_value i v self)"
| "perform h fap (WritePwm i v) self = snd (write_gpio_pin_pwm_value i v self)"
| "perform h fap (GetLed i) self = snd (get_led_state fap i self)"
| "perform h fap (SetLed i s) self = snd (set_led_state h fap i s self)"

fun run ::
  "('t, 'f) hooks \<Rightarrow> int \<Rightarrow> 'f gpio_op list \<Rightarrow> 't ArduinoHardwareBackend
     \<Rightarrow> 't ArduinoHardwareBackend" where
  "run h fap [] self = self"
| "run h fap (c # cs) self = run h fap cs (perform h fap c self)"

subsection \<open>Discovery\<close>

text \<open>
  A port descriptor as the enumerator \<^verbatim>\<open>comports\<close> returns it (pyserial's
  \<^verbatim>\<open>ListPortInfo\<close>), with the four attributes the backend reads.
\<close>

record ListPortInfo =
  vid :: int
  pid :: int
  device :: string
  serial_number :: "string option"

text \<open>
  Modelled from the spec: the class \<^verbatim>\<open>Board\<close> (\<^verbatim>\<open>j5.boards\<close>) is not among the
  sources. A board holds its serial number and the backend it owns, and the
  specification's data model bases equality and hashing of boards on the serial number.
\<close>

record 't Board =
  serial :: "string option"
  backend :: "'t ArduinoHardwareBackend"

text \<open>
  Modelled from the spec: equality of boards, which decides membership in a Python set of
  boards, is equality of their serial numbers.
\<close>

definition board_eq :: "'t Board \<Rightarrow> 't Board \<Rightarrow> bool" where
  "board_eq a b \<longleftrightarrow> serial a = serial b"

text \<open>
  A Python set of boards, as the list of its elements in the order they were added.
  \<^verbatim>\<open>set.add\<close> leaves the set as it is when it holds an equal element.
\<close>

definition set_add :: "'t Board \<Rightarrow> 't Board list \<Rightarrow> 't Board list" where
  "set_add b boards = (if \<exists>x \<in> set boards. board_eq x b then boards else boards @ [b])"

definition USB_IDS :: "(int \<times> int) set" where
  "USB_IDS = {(0x2341, 0x0043), (0x2a03, 0x0043), (0x1a86, 0x7523), (0x10c4, 0xea60)}"

definition is_arduino :: "ListPortInfo \<Rightarrow> bool" where
  "is_arduino port \<longleftrightarrow> (vid port, pid port) \<in> USB_IDS"

text \<open>
  \<open>board_of_port\<close> is the expression
  \<^verbatim>\<open>cls.board(port.serial_number, cls(port.device, serial_class))\<close>; \<open>discover\<close> adds
  it to the set for every port that passes the filter, in the order of the enumeration.
\<close>

definition board_of_port :: "int \<Rightarrow> (string \<Rightarrow> 't) \<Rightarrow> ListPortInfo \<Rightarrow> 't Board" where
  "board_of_port fap serial_class port =
     \<lparr>serial = serial_number port,
      backend = ArduinoHardwareBackend_init fap serial_class (device port)\<rparr>"

definition discover ::
  "int \<Rightarrow> (unit \<Rightarrow> ListPortInfo list) \<Rightarrow> (string \<Rightarrow> 't) \<Rightarrow> 't Board list" where
  "discover fap comports serial_class =
     (let ports = comports () in
      foldl (\<lambda>boards port. set_add (board_of_port fap serial_class port) boards)
        [] (filter is_arduino ports))"

subsection \<open>A concrete board for running the model\<close>

text \<open>
  A transport that records every pin setting pushed to it, and answers every read with a
  fixed value. It stands in for a subclass's implementation of the three abstract
  methods when the model is run on concrete inputs. \<open>uno\<close> is a freshly constructed
  backend with the first analogue pin at 14, and \<open>uno_out\<close> is that backend after pin
  13 has been set to \<open>DIGITAL_OUTPUT\<close>.
\<close>

type_synonym recorder = "(int \<times> GPIOPinMode \<times> bool) list"

definition recording_hooks :: "(recorder, int) hooks" where
  "recording_hooks =
     \<lparr>update_digital_pin = (\<lambda>i pins log.
        (case pins i of
           None \<Rightarrow> (Inl KeyError, log)
         | Some d \<Rightarrow> (Inr (), log @ [(i, mode d, state d)]))),
      read_digital_pin = (\<lambda>i pins log. (Inr False, log)),
      read_analogue_pin = (\<lambda>i pins log. (Inr 0, log))\<rparr>"

definition uno :: "recorder ArduinoHardwareBackend" where
  "uno = ArduinoHardwareBackend_init 14 (\<lambda>port. []) ''/dev/ttyACM0''"

definition uno_out :: "recorder ArduinoHardwareBackend" where
  "uno_out = snd (set_gpio_pin_mode recording_hooks 14 13 DIGITAL_OUTPUT uno)"

text \<open>
  An enumeration of four ports: two recognised ports that share a serial number, one port
  of an unknown vendor, and one more recognised port.
\<close>

definition example_ports :: "ListPortInfo list" where
  "example_ports =
     [\<lparr>vid = 0x1a86, pid = 0x7523, device = ''COM3'', serial_number = Some ''A''\<rparr>,
      \<lparr>vid = 0x0403, pid = 0x6001, device = ''COM4'', serial_number = Some ''B''\<rparr>,
      \<lparr>vid = 0x2341, pid = 0x0043, device = ''COM5'', serial_number = Some ''A''\<rparr>,
      \<lparr>vid = 0x10c4, pid = 0xea60, device = ''COM6'', serial_number = Some ''C''\<rparr>]"

section \<open>The board group (j5/boards/board_group.py)\<close>

text \<open>
  The module \<^verbatim>\<open>j5.boards.board_group\<close> is not among the sources; only its tests are.
  Every definition of this section follows the specification.
\<close>

text \<open>
  Modelled from the spec: a Board object of a group (the class is missing, see above).
  \<open>object_id\<close> is the identity of the object (what Python's \<^verbatim>\<open>is\<close> compares):
  objects are numbered in the order of their construction. \<open>board_serial\<close> is the
  serial number, a string, and \<open>board_backend\<close> the backend the board owns.
\<close>

record 'b board_object =
  object_id :: nat
  board_serial :: string
  board_backend :: 'b

text \<open>
  Modelled from the spec: the Board Group, a mapping from serial number to Board (an
  association list with one entry per key). \<open>next_object\<close> is the number of Board
  objects constructed so far, the identity of the next one.
\<close>

record 'b BoardGroup =
  boards :: "(string \<times> 'b board_object) list"
  next_object :: nat

text \<open>
  Modelled from the spec: what a run of the Backend Discoverer constructs. \<open>found\<close> is
  the serial number and the backend of each device the discoverer matches at this
  moment; every run constructs a new Board object for each of them.
\<close>

definition construct_boards :: "nat \<Rightarrow> (string \<times> 'b) list \<Rightarrow> 'b board_object list" where
  "construct_boards n found =
     map (\<lambda>(k, (s, p)). \<lparr>object_id = n + k, board_serial = s, board_backend = p\<rparr>)
       (enumerate 0 found)"

text \<open>
  Modelled from the spec: \<^verbatim>\<open>update_boards()\<close> re-runs the discoverer and replaces the
  mapping wholesale with the newly discovered set, keyed by serial.
\<close>

definition update_boards :: "(string \<times> 'b) list \<Rightarrow> 'b BoardGroup \<Rightarrow> 'b BoardGroup" where
  "update_boards found g =
     \<lparr>boards = foldl (\<lambda>m b. AList.update (board_serial b) b m) []
                 (construct_boards (next_object g) found),
      next_object = next_object g + length found\<rparr>"

text \<open>
  Modelled from the spec: \<^verbatim>\<open>get(board_type, backend_class)\<close> creates the group and
  performs discovery eagerly to populate the initial board set.
\<close>

definition get_board_group :: "(string \<times> 'b) list \<Rightarrow> nat \<Rightarrow> 'b BoardGroup" where
  "get_board_group found n = update_boards found \<lparr>boards = [], next_object = n\<rparr>"

text \<open>
  Modelled from the spec: a lookup key is any Python value; the tests use strings, an
  integer and a dictionary. A key that is not a string fails with \<open>TypeError\<close>, a
  string that maps to no board with \<open>KeyError\<close> (the kind NotFound).
\<close>

datatype pykey = PyStr string | PyInt int | PyOther

definition lookup_by_serial :: "pykey \<Rightarrow> 'b BoardGroup \<Rightarrow> error + 'b board_object" where
  "lookup_by_serial k g =
     (case k of
        PyStr s \<Rightarrow> (case map_of (boards g) s of None \<Rightarrow> Inl KeyError | Some b \<Rightarrow> Inr b)
      | _ \<Rightarrow> Inl TypeError)"

text \<open>
  Modelled from the spec: \<^verbatim>\<open>singular()\<close> returns the one board if exactly one is
  present, and fails with \<open>CommunicationError\<close> if the map is empty or holds more than
  one.
\<close>

definition singular :: "'b BoardGroup \<Rightarrow> error + 'b board_object" where
  "singular g =
     (case boards g of
        [] \<Rightarrow> Inl CommunicationError
      | [(s, b)] \<Rightarrow> Inr b
      | _ \<Rightarrow> Inl CommunicationError)"

text \<open>Modelled from the spec: \<^verbatim>\<open>contains(serial)\<close>, whether the serial maps to a board.\<close>

definition contains :: "string \<Rightarrow> 'b BoardGroup \<Rightarrow> bool" where
  "contains s g \<longleftrightarrow> map_of (boards g) s \<noteq> None"

text \<open>Modelled from the spec: \<^verbatim>\<open>length()\<close>, the current board count.\<close>

definition group_length :: "'b BoardGroup \<Rightarrow> nat" where
  "group_length g = length (boards g)"






text \<open>
  The groups of the tests: no board, one board (\<^verbatim>\<open>TESTSERIAL1\<close>) and two boards,
  discovered here in descending order of their serial numbers.
\<close>

definition no_board :: "unit BoardGroup" where
  "no_board = get_board_group [] 0"

definition one_board :: "unit BoardGroup" where
  "one_board = get_board_group [(''TESTSERIAL1'', ())] 0"

definition two_boards :: "unit BoardGroup" where
  "two_boards = get_board_group [(''TESTSERIAL2'', ()), (''TESTSERIAL1'', ())] 0"

section \<open>Properties of the Arduino backend\<close>

subsection \<open>The pin table\<close>

lemma init_pins:
  "digital_pins (ArduinoHardwareBackend_init fap sc p) i =
     (if 2 \<le> i \<and> i < fap then Some init_pin else None)"
  by (simp add: ArduinoHardwareBackend_init_def map_of_map_restrict restrict_map_def)

lemma uno_pins: "digital_pins uno i = (if 2 \<le> i \<and> i < 14 then Some init_pin else None)"
  by (simp add: uno_def init_pins)

lemma uno_transport: "transport uno = []"
  by (simp add: uno_def ArduinoHardwareBackend_init_def)

lemma dom_uno: "dom (digital_pins uno) = {2..<14}"
  by (auto simp: uno_pins dom_def)

lemma in_table:
  assumes "dom (digital_pins self) = {2..<fap}" "2 \<le> i" "i < fap"
  obtains d where "digital_pins self i = Some d"
proof -
  from assms have "i \<in> dom (digital_pins self)" by simp
  then show ?thesis using that by blast
qed

lemma call_hook_pins: "digital_pins (snd (call_hook f self)) = digital_pins self"
  by (simp add: call_hook_def split: prod.splits)

lemma dom_set_mode:
  "dom (digital_pins (snd (set_gpio_pin_mode h fap i m self))) = dom (digital_pins self)"
  by (auto simp: set_gpio_pin_mode_def call_hook_pins split: option.splits)

lemma dom_write:
  "dom (digital_pins (snd (write_gpio_pin_digital_state h fap i s self)))
     = dom (digital_pins self)"
  by (auto simp: write_gpio_pin_digital_state_def call_hook_pins split: option.splits)

lemma pins_get_mode: "digital_pins (snd (get_gpio_pin_mode fap i self)) = digital_pins self"
  by (simp add: get_gpio_pin_mode_def split: option.splits)

lemma pins_get_digital:
  "digital_pins (snd (get_gpio_pin_digital_state fap i self)) = digital_pins self"
  by (simp add: get_gpio_pin_digital_state_def split: option.splits)

lemma pins_read_digital:
  "digital_pins (snd (read_gpio_pin_digital_state h fap i self)) = digital_pins self"
  by (simp add: read_gpio_pin_digital_state_def call_hook_pins split: option.splits)

lemma pins_read_analogue:
  "digital_pins (snd (read_gpio_pin_analogue_value h fap i self)) = digital_pins self"
  by (simp add: read_gpio_pin_analogue_value_def call_hook_pins)

lemma pins_get_led: "digital_pins (snd (get_led_state fap i self)) = digital_pins self"
  by (simp add: get_led_state_def pins_get_digital)

lemma dom_perform: "dom (digital_pins (perform h fap c self)) = dom (digital_pins self)"
  by (cases c)
     (simp_all add: dom_set_mode dom_write pins_get_mode pins_get_digital pins_read_digital
        pins_read_analogue pins_get_led write_gpio_pin_dac_value_def
        write_gpio_pin_pwm_value_def set_led_state_def)

lemma dom_run: "dom (digital_pins (run h fap cs self)) = dom (digital_pins self)"
  by (induction cs arbitrary: self) (simp_all add: dom_perform)

lemma uno_out_pins:
  "digital_pins uno_out i =
     (if i = 13 then Some \<lparr>mode = DIGITAL_OUTPUT, state = False\<rparr>
      else if 2 \<le> i \<and> i < 14 then Some init_pin else None)"
  by (simp add: uno_out_def set_gpio_pin_mode_def digital_pin_modes_def uno_pins call_hook_pins
        init_pin_def)

lemma dom_uno_out: "dom (digital_pins uno_out) = {2..<14}"
  by (simp add: uno_out_def dom_set_mode dom_uno)

lemma uno_mode13: "get_gpio_pin_mode 14 13 uno = (Inr DIGITAL_INPUT, uno)"
  by (simp add: get_gpio_pin_mode_def uno_pins init_pin_def)

lemma uno_out_mode13: "get_gpio_pin_mode 14 13 uno_out = (Inr DIGITAL_OUTPUT, uno_out)"
  by (simp add: get_gpio_pin_mode_def uno_out_pins)

subsection \<open>Writing a digital state\<close>

text \<open>
  Claim C3, as the code has it. The pin table holds the identifiers from 2 up to the
  first analogue pin, so the claim holds for every identifier of at least 2:
  \<open>write_gpio_pin_digital_state\<close> fails with \<open>NotSupportedByHardwareError\<close> on an
  analogue pin and leaves the backend as it is; it fails with \<open>ValueError\<close> (the kind
  InvalidState) when the mode of the pin is not \<open>DIGITAL_OUTPUT\<close>; otherwise it stores
  the state in the table, calls \<^verbatim>\<open>_update_digital_pin\<close> on the table so updated, and
  a following \<open>get_gpio_pin_digital_state\<close> of the pin returns the state just written.
\<close>

theorem write_gpio_pin_digital_state_spec:
  assumes "dom (digital_pins self) = {2..<fap}" and "2 \<le> identifier"
  shows
   "(fap \<le> identifier \<longrightarrow>
       write_gpio_pin_digital_state h fap identifier st self
         = (Inl NotSupportedByHardwareError, self))
  \<and> (identifier < fap \<and> get_gpio_pin_mode fap identifier self \<noteq> (Inr DIGITAL_OUTPUT, self) \<longrightarrow>
       write_gpio_pin_digital_state h fap identifier st self = (Inl ValueError, self))
  \<and> (identifier < fap \<and> get_gpio_pin_mode fap identifier self = (Inr DIGITAL_OUTPUT, self) \<longrightarrow>
       (\<exists>d r t'. digital_pins self identifier = Some d
          \<and> update_digital_pin h identifier
               ((digital_pins self)(identifier \<mapsto> d\<lparr>state := st\<rparr>)) (transport self) = (r, t')
          \<and> write_gpio_pin_digital_state h fap identifier st self =
               (r, self\<lparr>digital_pins := (digital_pins self)(identifier \<mapsto> d\<lparr>state := st\<rparr>),
                        transport := t'\<rparr>))
        \<and> get_gpio_pin_digital_state fap identifier
            (snd (write_gpio_pin_digital_state h fap identifier st self))
          = (Inr st, snd (write_gpio_pin_digital_state h fap identifier st self)))"
proof (cases "identifier < fap")
  case False
  then show ?thesis by (simp add: write_gpio_pin_digital_state_def)
next
  case True
  with assms obtain d where d: "digital_pins self identifier = Some d"
    by (rule in_table)
  show ?thesis
    using True d
    by (auto simp: write_gpio_pin_digital_state_def get_gpio_pin_mode_def
          get_gpio_pin_digital_state_def call_hook_def split: prod.splits)
qed

text \<open>
  The theorem at work on the Uno: pin 14 is analogue, pin 13 is a digital input after
  construction, and once pin 13 is an output the written state is read back.
\<close>

theorem write_gpio_pin_digital_state_spec_witness:
  "dom (digital_pins uno) = {2..<14} \<and> (2::int) \<le> 14 \<and> (2::int) \<le> 13 \<and> (13::int) < 14
 \<and> write_gpio_pin_digital_state recording_hooks 14 14 True uno
      = (Inl NotSupportedByHardwareError, uno)
 \<and> get_gpio_pin_mode 14 13 uno \<noteq> (Inr DIGITAL_OUTPUT, uno)
 \<and> write_gpio_pin_digital_state recording_hooks 14 13 True uno = (Inl ValueError, uno)
 \<and> dom (digital_pins uno_out) = {2..<14}
 \<and> get_gpio_pin_mode 14 13 uno_out = (Inr DIGITAL_OUTPUT, uno_out)
 \<and> get_gpio_pin_digital_state 14 13
      (snd (write_gpio_pin_digital_state recording_hooks 14 13 True uno_out))
    = (Inr True, snd (write_gpio_pin_digital_state recording_hooks 14 13 True uno_out))"
  using write_gpio_pin_digital_state_spec
          [OF dom_uno, where ?identifier = 14 and h = recording_hooks and st = True]
        write_gpio_pin_digital_state_spec
          [OF dom_uno, where ?identifier = 13 and h = recording_hooks and st = True]
        write_gpio_pin_digital_state_spec
          [OF dom_uno_out, where ?identifier = 13 and h = recording_hooks and st = True]
  by (simp add: dom_uno dom_uno_out uno_mode13 uno_out_mode13)

text \<open>
  Claim C3 as it is written speaks of every pin identifier. Pin 0 is below the first
  analogue pin and has no entry in the table: the write fails with \<open>KeyError\<close>, which
  is neither of the two failures the claim names, and a following get does not return
  the state.
\<close>

theorem write_gpio_pin_digital_state_pin0_counterexample:
  "(0::int) < 14
 \<and> fst (write_gpio_pin_digital_state recording_hooks 14 0 True uno) = Inl KeyError
 \<and> fst (write_gpio_pin_digital_state recording_hooks 14 0 True uno)
      \<noteq> Inl NotSupportedByHardwareError
 \<and> fst (write_gpio_pin_digital_state recording_hooks 14 0 True uno) \<noteq> Inl ValueError
 \<and> fst (get_gpio_pin_digital_state 14 0
      (snd (write_gpio_pin_digital_state recording_hooks 14 0 True uno))) \<noteq> Inr True"
  by (simp add: write_gpio_pin_digital_state_def get_gpio_pin_digital_state_def uno_pins)

subsection \<open>Setting a pin mode\<close>

text \<open>
  Claim C4, as the code has it. For a digital pin with an entry in the table (an
  identifier from 2 up to the first analogue pin) and each of the three digital modes,
  \<open>set_gpio_pin_mode\<close> stores the mode in the table and calls
  \<^verbatim>\<open>_update_digital_pin\<close> on the table so updated, after which \<open>get_gpio_pin_mode\<close>
  returns the new mode. \<open>ANALOGUE_INPUT\<close> on an analogue pin returns without any
  change. \<open>ANALOGUE_INPUT\<close> on any pin below the first analogue pin, and every other
  mode on an analogue pin, fail with \<open>NotSupportedByHardwareError\<close> and change
  nothing.
\<close>

theorem set_gpio_pin_mode_spec:
  assumes "dom (digital_pins self) = {2..<fap}"
  shows
   "(2 \<le> identifier \<and> identifier < fap
       \<and> pin_mode \<in> {DIGITAL_INPUT, DIGITAL_INPUT_PULLUP, DIGITAL_OUTPUT} \<longrightarrow>
       (\<exists>d r t'. digital_pins self identifier = Some d
          \<and> update_digital_pin h identifier
               ((digital_pins self)(identifier \<mapsto> d\<lparr>mode := pin_mode\<rparr>)) (transport self)
             = (r, t')
          \<and> set_gpio_pin_mode h fap identifier pin_mode self =
               (r, self\<lparr>digital_pins := (digital_pins self)(identifier \<mapsto> d\<lparr>mode := pin_mode\<rparr>),
                        transport := t'\<rparr>))
        \<and> get_gpio_pin_mode fap identifier
            (snd (set_gpio_pin_mode h fap identifier pin_mode self))
          = (Inr pin_mode, snd (set_gpio_pin_mode h fap identifier pin_mode self)))
  \<and> (identifier < fap \<and> pin_mode = ANALOGUE_INPUT \<longrightarrow>
       set_gpio_pin_mode h fap identifier pin_mode self = (Inl NotSupportedByHardwareError, self))
  \<and> (fap \<le> identifier \<and> pin_mode = ANALOGUE_INPUT \<longrightarrow>
       set_gpio_pin_mode h fap identifier pin_mode self = (Inr (), self))
  \<and> (fap \<le> identifier \<and> pin_mode \<noteq> ANALOGUE_INPUT \<longrightarrow>
       set_gpio_pin_mode h fap identifier pin_mode self = (Inl NotSupportedByHardwareError, self))"
proof (cases "2 \<le> identifier \<and> identifier < fap")
  case False
  then show ?thesis
    by (auto simp: set_gpio_pin_mode_def digital_pin_modes_def)
next
  case True
  with assms obtain d where d: "digital_pins self identifier = Some d"
    by (auto elim: in_table)
  show ?thesis
    using True d
    by (auto simp: set_gpio_pin_mode_def digital_pin_modes_def get_gpio_pin_mode_def
          call_hook_def split: prod.splits)
qed

text \<open>
  The theorem at work on the Uno: setting pin 13 to output is recorded by the transport
  and read back; the other three cases at pins 0, 14 and 15.
\<close>

theorem set_gpio_pin_mode_spec_witness:
  "dom (digital_pins uno) = {2..<14}
 \<and> (2::int) \<le> 13 \<and> (13::int) < 14
 \<and> DIGITAL_OUTPUT \<in> {DIGITAL_INPUT, DIGITAL_INPUT_PULLUP, DIGITAL_OUTPUT}
 \<and> get_gpio_pin_mode 14 13 (snd (set_gpio_pin_mode recording_hooks 14 13 DIGITAL_OUTPUT uno))
      = (Inr DIGITAL_OUTPUT, snd (set_gpio_pin_mode recording_hooks 14 13 DIGITAL_OUTPUT uno))
 \<and> fst (set_gpio_pin_mode recording_hooks 14 13 DIGITAL_OUTPUT uno) = Inr ()
 \<and> transport (snd (set_gpio_pin_mode recording_hooks 14 13 DIGITAL_OUTPUT uno))
      = [(13, DIGITAL_OUTPUT, False)]
 \<and> (0::int) < 14
 \<and> set_gpio_pin_mode recording_hooks 14 0 ANALOGUE_INPUT uno
      = (Inl NotSupportedByHardwareError, uno)
 \<and> (14::int) \<le> 14
 \<and> set_gpio_pin_mode recording_hooks 14 14 ANALOGUE_INPUT uno = (Inr (), uno)
 \<and> (14::int) \<le> 15 \<and> DIGITAL_INPUT \<noteq> ANALOGUE_INPUT
 \<and> set_gpio_pin_mode recording_hooks 14 15 DIGITAL_INPUT uno
      = (Inl NotSupportedByHardwareError, uno)"
proof -
  have "fst (set_gpio_pin_mode recording_hooks 14 13 DIGITAL_OUTPUT uno) = Inr ()"
    by (simp add: set_gpio_pin_mode_def digital_pin_modes_def uno_pins call_hook_def
          recording_hooks_def)
  moreover have "transport (snd (set_gpio_pin_mode recording_hooks 14 13 DIGITAL_OUTPUT uno))
      = [(13, DIGITAL_OUTPUT, False)]"
    by (simp add: set_gpio_pin_mode_def digital_pin_modes_def uno_pins call_hook_def
          recording_hooks_def uno_transport init_pin_def)
  ultimately show ?thesis
    using set_gpio_pin_mode_spec
            [OF dom_uno, where ?identifier = 13 and pin_mode = DIGITAL_OUTPUT
               and h = recording_hooks]
          set_gpio_pin_mode_spec
            [OF dom_uno, where ?identifier = 0 and pin_mode = ANALOGUE_INPUT
               and h = recording_hooks]
          set_gpio_pin_mode_spec
            [OF dom_uno, where ?identifier = 14 and pin_mode = ANALOGUE_INPUT
               and h = recording_hooks]
          set_gpio_pin_mode_spec
            [OF dom_uno, where ?identifier = 15 and pin_mode = DIGITAL_INPUT
               and h = recording_hooks]
    by (simp add: dom_uno)
qed

text \<open>
  Claim C4 as it is written takes every pin below the first analogue pin for a digital
  pin. Pin 0 with the mode \<open>DIGITAL_OUTPUT\<close> is such a pair: the mode is not accepted,
  the failure is \<open>KeyError\<close> and not \<open>NotSupportedByHardwareError\<close>, and nothing
  is pushed to the transport.
\<close>

theorem set_gpio_pin_mode_pin0_counterexample:
  "(0::int) < 14
 \<and> DIGITAL_OUTPUT \<in> {DIGITAL_INPUT, DIGITAL_INPUT_PULLUP, DIGITAL_OUTPUT}
 \<and> fst (set_gpio_pin_mode recording_hooks 14 0 DIGITAL_OUTPUT uno) = Inl KeyError
 \<and> fst (set_gpio_pin_mode recording_hooks 14 0 DIGITAL_OUTPUT uno) \<noteq> Inr ()
 \<and> fst (set_gpio_pin_mode recording_hooks 14 0 DIGITAL_OUTPUT uno)
      \<noteq> Inl NotSupportedByHardwareError
 \<and> transport (snd (set_gpio_pin_mode recording_hooks 14 0 DIGITAL_OUTPUT uno)) = []"
  by (simp add: set_gpio_pin_mode_def digital_pin_modes_def uno_pins uno_transport)

subsection \<open>The LED\<close>

text \<open>
  Claim C7. \<open>get_led_state\<close> and \<open>set_led_state\<close> fail with \<open>ValueError\<close> (the
  kind InvalidArgument) for every LED identifier other than 0. For identifier 0 they are
  the digital-state operations on pin 13, so with pin 13 a digital pin whose mode is not
  \<open>DIGITAL_OUTPUT\<close> they fail with \<open>ValueError\<close> (the kind InvalidState).
\<close>

theorem led_state_spec:
  "(identifier \<noteq> 0 \<longrightarrow>
      get_led_state fap identifier self = (Inl ValueError, self)
    \<and> set_led_state h fap identifier st self = (Inl ValueError, self))
 \<and> get_led_state fap 0 self = get_gpio_pin_digital_state fap 13 self
 \<and> set_led_state h fap 0 st self = write_gpio_pin_digital_state h fap 13 st self
 \<and> (13 < fap \<and> (\<exists>m. get_gpio_pin_mode fap 13 self = (Inr m, self) \<and> m \<noteq> DIGITAL_OUTPUT) \<longrightarrow>
      get_led_state fap 0 self = (Inl ValueError, self)
    \<and> set_led_state h fap 0 st self = (Inl ValueError, self))"
  by (auto simp: get_led_state_def set_led_state_def get_gpio_pin_digital_state_def
        write_gpio_pin_digital_state_def get_gpio_pin_mode_def split: option.splits)

text \<open>
  On the Uno: LED 1 does not exist; LED 0 fails while pin 13 is an input; with pin 13 an
  output the LED is set and read back.
\<close>

theorem led_state_spec_witness:
  "(1::int) \<noteq> 0
 \<and> get_led_state 14 1 uno = (Inl ValueError, uno)
 \<and> set_led_state recording_hooks 14 1 True uno = (Inl ValueError, uno)
 \<and> (13::int) < 14
 \<and> get_gpio_pin_mode 14 13 uno = (Inr DIGITAL_INPUT, uno) \<and> DIGITAL_INPUT \<noteq> DIGITAL_OUTPUT
 \<and> get_led_state 14 0 uno = (Inl ValueError, uno)
 \<and> set_led_state recording_hooks 14 0 True uno = (Inl ValueError, uno)
 \<and> fst (get_led_state 14 0 (snd (set_led_state recording_hooks 14 0 True uno_out))) = Inr True"
proof -
  note inst = led_state_spec [where ?identifier = 1 and fap = 14 and self = uno
                                and h = recording_hooks and st = True]
  have m: "\<exists>m. get_gpio_pin_mode 14 13 uno = (Inr m, uno) \<and> m \<noteq> DIGITAL_OUTPUT"
    by (simp add: uno_mode13)
  from inst have a: "get_led_state 14 1 uno = (Inl ValueError, uno)
      \<and> set_led_state recording_hooks 14 1 True uno = (Inl ValueError, uno)"
    by simp
  have l: "(13::int) < 14" by simp
  from inst m l have b: "get_led_state 14 0 uno = (Inl ValueError, uno)
      \<and> set_led_state recording_hooks 14 0 True uno = (Inl ValueError, uno)"
    by blast
  have c: "fst (get_led_state 14 0 (snd (set_led_state recording_hooks 14 0 True uno_out)))
             = Inr True"
    by (simp add: get_led_state_def set_led_state_def write_gpio_pin_digital_state_def
          get_gpio_pin_digital_state_def uno_out_pins call_hook_pins)
  from a b c show ?thesis
    by (simp add: uno_mode13)
qed

subsection \<open>Read-only queries\<close>

text \<open>
  Claim C9. The queries \<open>get_gpio_pin_mode\<close>, \<open>get_gpio_pin_digital_state\<close>,
  \<open>read_gpio_pin_digital_state\<close> and \<open>read_gpio_pin_analogue_value\<close> leave the pin
  table as it is, whatever they return or raise; so do \<open>get_led_state\<close> and the two
  unsupported writes. Only \<open>set_gpio_pin_mode\<close>, \<open>write_gpio_pin_digital_state\<close> and
  \<open>set_led_state\<close> assign to the table.
\<close>

theorem read_only_queries_keep_pin_table:
  "digital_pins (snd (get_gpio_pin_mode fap i self)) = digital_pins self
 \<and> digital_pins (snd (get_gpio_pin_digital_state fap i self)) = digital_pins self
 \<and> digital_pins (snd (read_gpio_pin_digital_state h fap i self)) = digital_pins self
 \<and> digital_pins (snd (read_gpio_pin_analogue_value h fap i self)) = digital_pins self
 \<and> digital_pins (snd (get_led_state fap i self)) = digital_pins self
 \<and> digital_pins (snd (write_gpio_pin_dac_value i v self)) = digital_pins self
 \<and> digital_pins (snd (write_gpio_pin_pwm_value i v self)) = digital_pins self"
  by (simp add: pins_get_mode pins_get_digital pins_read_digital pins_read_analogue pins_get_led
        write_gpio_pin_dac_value_def write_gpio_pin_pwm_value_def)

text \<open>On the Uno: a successful live read of pin 13 and a failing read of pin 0.\<close>

theorem read_only_queries_keep_pin_table_witness:
  "fst (read_gpio_pin_digital_state recording_hooks 14 13 uno) = Inr False
 \<and> digital_pins (snd (read_gpio_pin_digital_state recording_hooks 14 13 uno)) = digital_pins uno
 \<and> fst (read_gpio_pin_digital_state recording_hooks 14 0 uno) = Inl KeyError
 \<and> digital_pins (snd (read_gpio_pin_digital_state recording_hooks 14 0 uno)) = digital_pins uno"
  using read_only_queries_keep_pin_table
          [where fap = 14 and i = 13 and self = uno and h = recording_hooks]
        read_only_queries_keep_pin_table
          [where fap = 14 and i = 0 and self = uno and h = recording_hooks]
  by (simp add: read_gpio_pin_digital_state_def uno_pins init_pin_def call_hook_def
        recording_hooks_def)

subsection \<open>The key set of the pin table\<close>

text \<open>
  Claim C10. After construction the pin table has an entry for exactly the identifiers
  from 2 up to, but excluding, the first analogue pin, each with mode \<open>DIGITAL_INPUT\<close>
  and state \<open>False\<close>. Every operation keeps the key set, so after any sequence of
  operations the lookup of a digital pin identifier finds an entry.
\<close>

theorem pin_table_keys_invariant:
  "dom (digital_pins (ArduinoHardwareBackend_init fap sc p)) = {2..<fap}
 \<and> (\<forall>i \<in> {2..<fap}. digital_pins (ArduinoHardwareBackend_init fap sc p) i
        = Some \<lparr>mode = DIGITAL_INPUT, state = False\<rparr>)
 \<and> dom (digital_pins (perform h fap c self)) = dom (digital_pins self)
 \<and> dom (digital_pins (run h fap cs (ArduinoHardwareBackend_init fap sc p))) = {2..<fap}
 \<and> (\<forall>i \<in> {2..<fap}.
       digital_pins (run h fap cs (ArduinoHardwareBackend_init fap sc p)) i \<noteq> None)"
proof -
  have d0: "dom (digital_pins (ArduinoHardwareBackend_init fap sc p)) = {2..<fap}"
    by (auto simp: init_pins dom_def)
  have dr: "dom (digital_pins (run h fap cs (ArduinoHardwareBackend_init fap sc p))) = {2..<fap}"
    by (simp add: dom_run d0)
  have "\<forall>i \<in> {2..<fap}.
          digital_pins (run h fap cs (ArduinoHardwareBackend_init fap sc p)) i \<noteq> None"
    using dr by blast
  then show ?thesis
    using d0 dr by (simp add: init_pins init_pin_def dom_perform)
qed

text \<open>
  On the Uno: pin 13 starts as an input with state \<open>False\<close>, and still has its entry
  after a mode change, a write and a failing call.
\<close>

theorem pin_table_keys_invariant_witness:
  "(13::int) \<in> {2..<14}
 \<and> digital_pins uno 13 = Some \<lparr>mode = DIGITAL_INPUT, state = False\<rparr>
 \<and> digital_pins
      (run recording_hooks 14 [SetMode 13 DIGITAL_OUTPUT, WriteDigital 13 True, SetMode 0 DIGITAL_INPUT]
         uno) 13 \<noteq> None"
  using pin_table_keys_invariant
          [where fap = 14 and sc = "\<lambda>port. []" and p = "''/dev/ttyACM0''"
             and h = recording_hooks
             and cs = "[SetMode 13 DIGITAL_OUTPUT, WriteDigital 13 True, SetMode 0 DIGITAL_INPUT]"]
  by (simp add: uno_def)

subsection \<open>Discovery\<close>

lemma set_add_serials: "serial ` set (set_add b bs) = insert (serial b) (serial ` set bs)"
  by (auto simp: set_add_def board_eq_def intro: rev_image_eqI)

lemma set_add_distinct: "distinct (map serial bs) \<Longrightarrow> distinct (map serial (set_add b bs))"
  by (auto simp: set_add_def board_eq_def)

lemma set_add_subset: "set (set_add b bs) \<subseteq> insert b (set bs)"
  by (auto simp: set_add_def)

lemma fold_serials:
  "serial ` set (foldl (\<lambda>bs p. set_add (board_of_port fap sc p) bs) acc ps)
     = serial ` set acc \<union> serial_number ` set ps"
  by (induction ps arbitrary: acc) (auto simp: set_add_serials board_of_port_def)

lemma fold_distinct:
  "distinct (map serial acc) \<Longrightarrow>
     distinct (map serial (foldl (\<lambda>bs p. set_add (board_of_port fap sc p) bs) acc ps))"
  by (induction ps arbitrary: acc) (simp_all add: set_add_distinct)

lemma fold_subset:
  "set (foldl (\<lambda>bs p. set_add (board_of_port fap sc p) bs) acc ps)
     \<subseteq> set acc \<union> board_of_port fap sc ` set ps"
proof (induction ps arbitrary: acc)
  case Nil
  then show ?case by simp
next
  case (Cons p ps)
  have "set (foldl (\<lambda>bs p. set_add (board_of_port fap sc p) bs)
               (set_add (board_of_port fap sc p) acc) ps)
          \<subseteq> set (set_add (board_of_port fap sc p) acc) \<union> board_of_port fap sc ` set ps"
    by (rule Cons.IH)
  also have "\<dots> \<subseteq> set acc \<union> board_of_port fap sc ` set (p # ps)"
    using set_add_subset [of "board_of_port fap sc p" acc] by auto
  finally show ?case by simp
qed

lemma discover_fold:
  "discover fap comports sc =
     foldl (\<lambda>bs p. set_add (board_of_port fap sc p) bs) [] (filter is_arduino (comports ()))"
  by (simp add: discover_def)

text \<open>
  Claim C6. Every board that \<open>discover\<close> returns is built from an enumerated port
  whose \<open>(vid, pid)\<close> is in \<open>USB_IDS\<close>: its serial is the serial number of that port
  and its backend is a new backend on the device of that port. Every such port has
  exactly one board with its serial number in the result, no two boards of the result
  share a serial, and the result has as many boards as the matching ports have different
  serial numbers. Ports that do not match contribute nothing.
\<close>

theorem discover_spec:
  "(\<forall>b \<in> set (discover fap comports sc).
      \<exists>p \<in> set (comports ()). is_arduino p
        \<and> serial b = serial_number p
        \<and> backend b = ArduinoHardwareBackend_init fap sc (device p))
 \<and> (\<forall>p \<in> set (comports ()). is_arduino p \<longrightarrow>
      (\<exists>!b. b \<in> set (discover fap comports sc) \<and> serial b = serial_number p))
 \<and> distinct (map serial (discover fap comports sc))
 \<and> length (discover fap comports sc)
      = card (serial_number ` {p \<in> set (comports ()). is_arduino p})"
proof -
  let ?bs = "discover fap comports sc"
  have dist: "distinct (map serial ?bs)"
    unfolding discover_fold by (rule fold_distinct) simp
  have ser: "serial ` set ?bs = serial_number ` {p \<in> set (comports ()). is_arduino p}"
    unfolding discover_fold by (simp add: fold_serials)
  have sub: "set ?bs \<subseteq> board_of_port fap sc ` {p \<in> set (comports ()). is_arduino p}"
    unfolding discover_fold using fold_subset [of fap sc "[]"] by fastforce
  have a: "\<forall>b \<in> set ?bs. \<exists>p \<in> set (comports ()). is_arduino p
        \<and> serial b = serial_number p
        \<and> backend b = ArduinoHardwareBackend_init fap sc (device p)"
  proof
    fix b assume "b \<in> set ?bs"
    with sub obtain p where "p \<in> set (comports ())" "is_arduino p" "b = board_of_port fap sc p"
      by blast
    then show "\<exists>p \<in> set (comports ()). is_arduino p
        \<and> serial b = serial_number p
        \<and> backend b = ArduinoHardwareBackend_init fap sc (device p)"
      by (auto simp: board_of_port_def)
  qed
  have b: "\<forall>p \<in> set (comports ()). is_arduino p \<longrightarrow>
      (\<exists>!b. b \<in> set ?bs \<and> serial b = serial_number p)"
  proof (intro ballI impI)
    fix p assume p: "p \<in> set (comports ())" "is_arduino p"
    then have "serial_number p \<in> serial ` set ?bs" unfolding ser by blast
    then obtain b where b: "b \<in> set ?bs" "serial b = serial_number p" by auto
    show "\<exists>!b. b \<in> set ?bs \<and> serial b = serial_number p"
    proof (rule ex1I [of _ b])
      show "b \<in> set ?bs \<and> serial b = serial_number p" using b by simp
    next
      fix c assume "c \<in> set ?bs \<and> serial c = serial_number p"
      then have "c \<in> set ?bs" "serial c = serial b" using b by simp_all
      moreover have "inj_on serial (set ?bs)" using dist by (simp add: distinct_map)
      ultimately show "c = b" using b(1) by (blast dest: inj_onD)
    qed
  qed
  have "length ?bs = length (map serial ?bs)" by simp
  also have "\<dots> = card (set (map serial ?bs))"
    using dist by (simp only: distinct_card)
  also have "\<dots> = card (serial_number ` {p \<in> set (comports ()). is_arduino p})"
    using ser by simp
  finally have c: "length ?bs = card (serial_number ` {p \<in> set (comports ()). is_arduino p})" .
  from a b dist c show ?thesis by blast
qed

text \<open>
  On the example enumeration: the port of the unknown vendor is dropped, the two ports
  with serial number \<open>A\<close> give one board (bound to the device enumerated first), and
  the result holds the boards \<open>A\<close> and \<open>C\<close>.
\<close>

theorem discover_spec_witness:
  "\<lparr>vid = 0x2341, pid = 0x0043, device = ''COM5'', serial_number = Some ''A''\<rparr>
      \<in> set example_ports
 \<and> is_arduino \<lparr>vid = 0x2341, pid = 0x0043, device = ''COM5'', serial_number = Some ''A''\<rparr>
 \<and> (\<exists>!b. b \<in> set (discover 14 (\<lambda>u. example_ports) (\<lambda>port. ([]::recorder)))
        \<and> serial b = Some ''A'')
 \<and> set (discover 14 (\<lambda>u. example_ports) (\<lambda>port. ([]::recorder))) \<noteq> {}
 \<and> map serial (discover 14 (\<lambda>u. example_ports) (\<lambda>port. ([]::recorder)))
      = [Some ''A'', Some ''C'']
 \<and> map (serial_port \<circ> backend) (discover 14 (\<lambda>u. example_ports) (\<lambda>port. ([]::recorder)))
      = [''COM3'', ''COM6'']"
proof -
  let ?p = "\<lparr>vid = 0x2341, pid = 0x0043, device = ''COM5'', serial_number = Some ''A''\<rparr>"
  have m: "?p \<in> set example_ports" by (simp add: example_ports_def)
  have i: "is_arduino ?p" by (simp add: is_arduino_def USB_IDS_def)
  have s: "map serial (discover 14 (\<lambda>u. example_ports) (\<lambda>port. ([]::recorder)))
      = [Some ''A'', Some ''C'']"
    by (simp add: discover_def example_ports_def is_arduino_def USB_IDS_def set_add_def
          board_eq_def board_of_port_def)
  have d: "map (serial_port \<circ> backend)
             (discover 14 (\<lambda>u. example_ports) (\<lambda>port. ([]::recorder)))
      = [''COM3'', ''COM6'']"
    by (simp add: discover_def example_ports_def is_arduino_def USB_IDS_def set_add_def
          board_eq_def board_of_port_def ArduinoHardwareBackend_init_def)
  have n: "set (discover 14 (\<lambda>u. example_ports) (\<lambda>port. ([]::recorder))) \<noteq> {}"
    using s by auto
  from discover_spec [of 14 "\<lambda>u. example_ports" "\<lambda>port. ([]::recorder)"] m i
  have "\<exists>!b. b \<in> set (discover 14 (\<lambda>u. example_ports) (\<lambda>port. ([]::recorder)))
        \<and> serial b = serial_number ?p"
    by blast
  then show ?thesis using m i s d n by simp
qed

section \<open>Properties of the board group\<close>

lemma update_entries: "set (AList.update k v al) \<subseteq> insert (k, v) (set al)"
  by (induction al) auto

lemma index_keys:
  "fst ` set (foldl (\<lambda>m b. AList.update (board_serial b) b m) acc bs)
     = fst ` set acc \<union> board_serial ` set bs"
  by (induction bs arbitrary: acc) (auto simp: dom_update)


lemma index_entries:
  "set (foldl (\<lambda>m b. AList.update (board_serial b) b m) acc bs)
     \<subseteq> set acc \<union> (\<lambda>b. (board_serial b, b)) ` set bs"
proof (induction bs arbitrary: acc)
  case Nil
  then show ?case by simp
next
  case (Cons b bs)
  have "set (foldl (\<lambda>m b. AList.update (board_serial b) b m)
               (AList.update (board_serial b) b acc) bs)
          \<subseteq> set (AList.update (board_serial b) b acc) \<union> (\<lambda>b. (board_serial b, b)) ` set bs"
    by (rule Cons.IH)
  also have "\<dots> \<subseteq> set acc \<union> (\<lambda>b. (board_serial b, b)) ` set (b # bs)"
    using update_entries [of "board_serial b" b acc] by auto
  finally show ?case by simp
qed

lemma construct_boards_set:
  "b \<in> set (construct_boards n found) \<Longrightarrow>
     n \<le> object_id b \<and> object_id b < n + length found
       \<and> (board_serial b, board_backend b) \<in> set found"
  by (auto simp: construct_boards_def in_set_enumerate_eq) (metis nth_mem)

lemma construct_boards_serials:
  "board_serial ` set (construct_boards n found) = fst ` set found"
proof -
  have "map board_serial (construct_boards n found) = map (fst \<circ> snd) (enumerate 0 found)"
    by (simp add: construct_boards_def case_prod_beta comp_def)
  also have "\<dots> = map fst (map snd (enumerate 0 found))"
    by (simp only: map_map)
  also have "\<dots> = map fst found"
    by (simp only: map_snd_enumerate)
  finally have "set (map board_serial (construct_boards n found)) = set (map fst found)"
    by (rule arg_cong)
  then show ?thesis by (simp only: set_map)
qed

lemma update_boards_entry:
  assumes "(s, b) \<in> set (boards (update_boards found g))"
  shows "next_object g \<le> object_id b \<and> object_id b < next_object (update_boards found g)
         \<and> board_serial b = s \<and> (s, board_backend b) \<in> set found"
proof -
  from assms index_entries [of "[]" "construct_boards (next_object g) found"]
  have "b \<in> set (construct_boards (next_object g) found)" "s = board_serial b"
    by (auto simp: update_boards_def)
  then show ?thesis
    using construct_boards_set [of b "next_object g" found] by (simp add: update_boards_def)
qed

lemma update_boards_keys: "fst ` set (boards (update_boards found g)) = fst ` set found"
  by (simp add: update_boards_def index_keys construct_boards_serials)


lemma contains_iff: "contains s g \<longleftrightarrow> s \<in> fst ` set (boards g)"
  by (simp add: contains_def map_of_eq_None_iff)

lemma lookup_Inr:
  "lookup_by_serial k g = Inr b \<Longrightarrow> \<exists>s. k = PyStr s \<and> (s, b) \<in> set (boards g)"
  by (auto simp: lookup_by_serial_def split: pykey.splits option.splits dest: map_of_SomeD)

lemma no_board_boards: "boards no_board = []"
  by (simp add: no_board_def get_board_group_def update_boards_def construct_boards_def)

lemma one_board_boards:
  "boards one_board
     = [(''TESTSERIAL1'', \<lparr>object_id = 0, board_serial = ''TESTSERIAL1'', board_backend = ()\<rparr>)]"
  by (simp add: one_board_def get_board_group_def update_boards_def construct_boards_def)

lemma two_boards_boards:
  "boards two_boards
     = [(''TESTSERIAL2'', \<lparr>object_id = 0, board_serial = ''TESTSERIAL2'', board_backend = ()\<rparr>),
        (''TESTSERIAL1'', \<lparr>object_id = 1, board_serial = ''TESTSERIAL1'', board_backend = ()\<rparr>)]"
  by (simp add: two_boards_def get_board_group_def update_boards_def construct_boards_def)


subsection \<open>Singular access\<close>

text \<open>
  Claim C1. \<open>singular\<close> returns the one board of a group that holds exactly one board;
  on an empty group and on a group of more than one board it fails with
  \<open>CommunicationError\<close>.
\<close>

theorem singular_spec:
  "(group_length g = 1 \<longrightarrow> (\<exists>b. singular g = Inr b \<and> map snd (boards g) = [b]))
 \<and> (group_length g = 0 \<longrightarrow> singular g = Inl CommunicationError)
 \<and> (1 < group_length g \<longrightarrow> singular g = Inl CommunicationError)"
  by (auto simp: group_length_def singular_def split: list.splits)

text \<open>The three groups of the tests.\<close>

theorem singular_spec_witness:
  "group_length one_board = 1
 \<and> (\<exists>b. singular one_board = Inr b \<and> map snd (boards one_board) = [b])
 \<and> group_length no_board = 0 \<and> singular no_board = Inl CommunicationError
 \<and> 1 < group_length two_boards \<and> singular two_boards = Inl CommunicationError"
  using singular_spec [of one_board] singular_spec [of no_board] singular_spec [of two_boards]
  by (simp add: group_length_def one_board_boards no_board_boards two_boards_boards)

subsection \<open>Refresh\<close>

text \<open>
  Claim C2. After \<open>update_boards\<close>, a lookup that succeeded before the refresh and
  succeeds after it returns a Board object that is not the object returned before. The
  mapping after the refresh has exactly the serial numbers of the newly discovered
  boards, each mapped to a board of that serial number with the newly discovered
  backend, so a board that is no longer discovered is gone.
\<close>

theorem update_boards_fresh:
  "(\<forall>k b b'. lookup_by_serial k (update_boards found_before g_start) = Inr b
       \<longrightarrow> lookup_by_serial k (update_boards found (update_boards found_before g_start)) = Inr b'
       \<longrightarrow> object_id b' \<noteq> object_id b)
 \<and> (\<forall>s. contains s (update_boards found g) \<longleftrightarrow> s \<in> fst ` set found)
 \<and> (\<forall>s b. lookup_by_serial (PyStr s) (update_boards found g) = Inr b
       \<longrightarrow> board_serial b = s \<and> (s, board_backend b) \<in> set found)"
proof -
  let ?g = "update_boards found_before g_start"
  have fresh: "object_id b' \<noteq> object_id b"
    if "lookup_by_serial k ?g = Inr b" "lookup_by_serial k (update_boards found ?g) = Inr b'"
    for k b b'
  proof -
    from that(1) obtain s where "(s, b) \<in> set (boards ?g)"
      using lookup_Inr by blast
    then have old: "object_id b < next_object ?g"
      using update_boards_entry by blast
    from that(2) obtain s' where "(s', b') \<in> set (boards (update_boards found ?g))"
      using lookup_Inr by blast
    then have "next_object ?g \<le> object_id b'"
      using update_boards_entry by blast
    with old show ?thesis by simp
  qed
  have keys: "contains s (update_boards found g) \<longleftrightarrow> s \<in> fst ` set found" for s
    by (simp add: contains_iff update_boards_keys)
  have ent: "board_serial b = s \<and> (s, board_backend b) \<in> set found"
    if "lookup_by_serial (PyStr s) (update_boards found g) = Inr b" for s b
  proof -
    from that have "(s, b) \<in> set (boards (update_boards found g))"
      using lookup_Inr by blast
    then show ?thesis using update_boards_entry by blast
  qed
  from fresh keys ent show ?thesis by blast
qed

text \<open>
  The group of one board, refreshed while the board is still attached: the lookup of
  \<^verbatim>\<open>TESTSERIAL1\<close> returns object 0 before and object 1 after. Refreshed with no board
  attached, the group is empty.
\<close>

theorem update_boards_fresh_witness:
  "lookup_by_serial (PyStr ''TESTSERIAL1'') one_board
     = Inr \<lparr>object_id = 0, board_serial = ''TESTSERIAL1'', board_backend = ()\<rparr>
 \<and> lookup_by_serial (PyStr ''TESTSERIAL1'') (update_boards [(''TESTSERIAL1'', ())] one_board)
     = Inr \<lparr>object_id = 1, board_serial = ''TESTSERIAL1'', board_backend = ()\<rparr>
 \<and> object_id \<lparr>object_id = 1, board_serial = ''TESTSERIAL1'', board_backend = ()\<rparr>
     \<noteq> object_id \<lparr>object_id = 0, board_serial = ''TESTSERIAL1'', board_backend = ()\<rparr>
 \<and> contains ''TESTSERIAL1'' (update_boards [(''TESTSERIAL1'', ())] one_board)
 \<and> \<not> contains ''TESTSERIAL1'' (update_boards [] one_board)
 \<and> group_length (update_boards [] one_board) = 0"
proof -
  let ?b0 = "\<lparr>object_id = 0, board_serial = ''TESTSERIAL1'', board_backend = ()\<rparr>"
  let ?b1 = "\<lparr>object_id = 1, board_serial = ''TESTSERIAL1'', board_backend = ()\<rparr>"
  let ?e = "\<lparr>boards = [], next_object = 0\<rparr> :: unit BoardGroup"
  have d: "one_board = update_boards [(''TESTSERIAL1'', ())] ?e"
    by (simp add: one_board_def get_board_group_def)
  have a: "lookup_by_serial (PyStr ''TESTSERIAL1'') (update_boards [(''TESTSERIAL1'', ())] ?e)
             = Inr ?b0"
    by (simp add: lookup_by_serial_def update_boards_def construct_boards_def)
  have b: "lookup_by_serial (PyStr ''TESTSERIAL1'')
             (update_boards [(''TESTSERIAL1'', ())] (update_boards [(''TESTSERIAL1'', ())] ?e))
             = Inr ?b1"
    by (simp add: lookup_by_serial_def update_boards_def construct_boards_def)
  have c: "group_length (update_boards [] one_board) = 0"
    by (simp add: group_length_def update_boards_def construct_boards_def)
  note inst1 = update_boards_fresh
            [where found_before = "[(''TESTSERIAL1'', ())]" and g_start = ?e
               and found = "[(''TESTSERIAL1'', ())]" and g = one_board]
  note inst0 = update_boards_fresh
            [where found_before = "[(''TESTSERIAL1'', ())]" and g_start = ?e
               and found = "[]" and g = one_board]
  from inst1 a b have n: "object_id ?b1 \<noteq> object_id ?b0" by blast
  from inst1 have k: "contains ''TESTSERIAL1'' (update_boards [(''TESTSERIAL1'', ())] one_board)"
    by simp
  from inst0 have k0: "\<not> contains ''TESTSERIAL1'' (update_boards [] one_board)"
    by simp
  from a b n k k0 c show ?thesis
    unfolding d by simp
qed

subsection \<open>Iteration\<close>







subsection \<open>Lookup failures\<close>

text \<open>
  Claim C8. A lookup with a key that is not a string fails with \<open>TypeError\<close>; a lookup
  with a string that maps to no board fails with \<open>KeyError\<close> (the kind NotFound); the
  two failures are different.
\<close>

theorem lookup_by_serial_errors:
  "((\<forall>s. k \<noteq> PyStr s) \<longrightarrow> lookup_by_serial k g = Inl TypeError)
 \<and> (\<not> contains s g \<longrightarrow> lookup_by_serial (PyStr s) g = Inl KeyError)
 \<and> (Inl TypeError :: error + 'b board_object) \<noteq> Inl KeyError"
  by (auto simp: lookup_by_serial_def contains_def split: pykey.splits)

text \<open>The keys of the test on the group of one board: the integer 0 and an unknown string.\<close>

theorem lookup_by_serial_errors_witness:
  "(\<forall>s. PyInt 0 \<noteq> PyStr s)
 \<and> lookup_by_serial (PyInt 0) one_board = Inl TypeError
 \<and> \<not> contains ''ARGHHHJ'' one_board
 \<and> lookup_by_serial (PyStr ''ARGHHHJ'') one_board = Inl KeyError"
  using lookup_by_serial_errors [where k = "PyInt 0" and g = one_board and s = "''ARGHHHJ''"]
  by (simp add: contains_def one_board_boards)

end
